theory Spec2Isabelle
  imports Main "HOL-Library.AList"
begin

section \<open>Python values, dictionaries and the HTTP session\<close>

text \<open>
  The Authserver backend of \<^verbatim>\<open>mycqu.auth\<close> drives a \<^verbatim>\<open>requests.Session\<close>. The
  model keeps one character of a Python \<^verbatim>\<open>str\<close> per \<^typ>\<open>char\<close>. A form dictionary
  is an insertion-ordered association list with distinct keys, as a Python \<^verbatim>\<open>dict\<close>
  is; its values are strings or references to a dictionary object in a store.
\<close>

type_synonym addr = nat

datatype pyval = PStr string | PDictRef addr

type_synonym pydict = "(string \<times> pyval) list"

datatype http_method = GET | POST

text \<open>
  One call of \<^verbatim>\<open>session.get\<close> or \<^verbatim>\<open>session.post\<close> with its keyword arguments.
  \<open>req_params = None\<close> and \<open>req_timeout = None\<close> are the defaults of \<^verbatim>\<open>requests\<close>
  (no query string, no time limit); the default of \<open>req_allow_redirects\<close> is \<open>True\<close>.
\<close>

record request =
  req_method :: http_method
  req_url :: string
  req_params :: "(string \<times> string) list option"
  req_data :: "pydict option"
  req_allow_redirects :: bool
  req_timeout :: "int option"

record response =
  status_code :: int
  resp_text :: string
  headers :: "(string \<times> string) list"

text \<open>
  The session is the log of the calls made through it, oldest first: cookies and the
  provider's state are functions of that log. The provider maps the log, the current call
  included, to its answer; \<open>None\<close> is a transport failure (\<^verbatim>\<open>requests\<close> raises).
\<close>

type_synonym session = "request list"

type_synonym provider = "request list \<Rightarrow> response option"

text \<open>The exceptions of the source; the two capabilities of a conflict are closures.\<close>

datatype error =
    UnknownAuthserverException "int option"
  | ParseError
  | MultiSessionConflict "request list \<Rightarrow> (error + response) \<times> request list"
                         "request list \<Rightarrow> (error + response) \<times> request list"
  | KeyError string
  | AttributeError string
  | RequestException
  | TicketGetError
  | CQUWebsiteError
  | NotLogined
  | OtherError string

text \<open>A computation on the session that returns a value or raises; the log is kept either way.\<close>

type_synonym 'a io = "session \<Rightarrow> (error + 'a) \<times> session"

definition return_io :: "'a \<Rightarrow> 'a io" where
  "return_io x s = (Inr x, s)"

definition raise_io :: "error \<Rightarrow> 'a io" where
  "raise_io e s = (Inl e, s)"

definition bind_io :: "'a io \<Rightarrow> ('a \<Rightarrow> 'b io) \<Rightarrow> 'b io" where
  "bind_io m f s = (case m s of (Inl e, s') \<Rightarrow> (Inl e, s') | (Inr x, s') \<Rightarrow> f x s')"

definition session_send :: "provider \<Rightarrow> request \<Rightarrow> response io" where
  "session_send prov rq s =
     (case prov (s @ [rq]) of
        None \<Rightarrow> (Inl RequestException, s @ [rq])
      | Some r \<Rightarrow> (Inr r, s @ [rq]))"

definition session_get ::
  "provider \<Rightarrow> string \<Rightarrow> (string \<times> string) list option \<Rightarrow> bool \<Rightarrow> int option \<Rightarrow> response io" where
  "session_get prov u ps ar t =
     session_send prov \<lparr>req_method = GET, req_url = u, req_params = ps, req_data = None,
                        req_allow_redirects = ar, req_timeout = t\<rparr>"

definition session_post ::
  "provider \<Rightarrow> string \<Rightarrow> pydict \<Rightarrow> bool \<Rightarrow> int option \<Rightarrow> response io" where
  "session_post prov u d ar t =
     session_send prov \<lparr>req_method = POST, req_url = u, req_params = None, req_data = Some d,
                        req_allow_redirects = ar, req_timeout = t\<rparr>"

section \<open>The Authserver authorizer\<close>

text \<open>
  The fields that \<^verbatim>\<open>AuthserverAuthorizer\<close> reads from \<^verbatim>\<open>self\<close>; the session is
  threaded through the computations instead.
\<close>

record authorizer =
  username :: string
  password :: string
  service :: "string option"
  timeout :: int
  force_relogin :: bool
  keep_longer :: bool
  kick_others :: bool

definition AUTHSERVER_CAPTCHA_DETERMINE_URL :: string where
  "AUTHSERVER_CAPTCHA_DETERMINE_URL = ''http://authserver.cqu.edu.cn/authserver/needCaptcha.html''"

definition AUTHSERVER_CAPTCHA_IMAGE_URL :: string where
  "AUTHSERVER_CAPTCHA_IMAGE_URL = ''http://authserver.cqu.edu.cn/authserver/captcha.html''"

definition LOGIN_URL :: string where
  "LOGIN_URL = ''http://authserver.cqu.edu.cn/authserver/login''"

definition LOGOUT_URL :: string where
  "LOGOUT_URL = ''http://authserver.cqu.edu.cn/authserver/logout''"

text \<open>
  Modelled from the spec: the method \<^verbatim>\<open>Authorizer.logout\<close> of the base class, whose module
  \<^verbatim>\<open>_authorizer\<close> is missing. It invalidates the login state at the provider: one request
  to the logout endpoint \<open>LOGOUT_URL\<close>, with the defaults of \<^verbatim>\<open>requests\<close>, its answer
  discarded.
\<close>

definition logout_request :: request where
  "logout_request = \<lparr>req_method = GET, req_url = LOGOUT_URL, req_params = None, req_data = None,
                      req_allow_redirects = True, req_timeout = None\<rparr>"

definition logout :: "provider \<Rightarrow> unit io" where
  "logout prov = bind_io (session_send prov logout_request) (\<lambda>_. return_io ())"

text \<open>\<^verbatim>\<open>logout_authserver\<close>: the deprecated alias; the decorator only warns.\<close>

definition logout_authserver :: "provider \<Rightarrow> unit io" where
  "logout_authserver prov = logout prov"

text \<open>
  \<^verbatim>\<open>_get_formdata\<close> belongs to the module \<^verbatim>\<open>_page_parser\<close>: it is a parameter, from the
  page text, the user name and the password to the form dictionary or an exception.
\<close>

type_synonym formdata_parser = "string \<Rightarrow> string \<Rightarrow> string \<Rightarrow> error + pydict"

text \<open>
  \<^verbatim>\<open>_get_request_data\<close> is declared to return a \<^verbatim>\<open>Dict\<close> and returns either the
  redirect \<^verbatim>\<open>Response\<close> or the form dictionary.
\<close>

datatype request_data = ResponseObject response | FormData pydict

text \<open>The partial application \<^verbatim>\<open>get_login_page\<close> of lines 56 to 60.\<close>

definition login_page_request :: "authorizer \<Rightarrow> request" where
  "login_page_request a =
     \<lparr>req_method = GET, req_url = LOGIN_URL,
      req_params = (case service a of None \<Rightarrow> None | Some sv \<Rightarrow> Some [(''service'', sv)]),
      req_data = None, req_allow_redirects = False, req_timeout = Some (timeout a)\<rparr>"

definition get_login_page :: "provider \<Rightarrow> authorizer \<Rightarrow> response io" where
  "get_login_page prov a =
     session_get prov LOGIN_URL
       (case service a of None \<Rightarrow> None | Some sv \<Rightarrow> Some [(''service'', sv)])
       False (Some (timeout a))"

text \<open>Lines 76 to 82: the two updates of the form dictionary before it is returned.\<close>

definition finish_formdata :: "authorizer \<Rightarrow> pydict \<Rightarrow> pydict" where
  "finish_formdata a formdata =
     (let formdata1 = (if keep_longer a then AList.update ''rememberMe'' (PStr ''on'') formdata
                       else formdata)
      in if ''captchaResponse'' \<in> fst ` set formdata1
         then AList.delete ''captchaResponse'' formdata1 else formdata1)"

text \<open>
  Lines 71 to 82, entered with the page held in \<^verbatim>\<open>login_page\<close>: the extraction, its one
  retry after a \<^verbatim>\<open>ParseError\<close> (any other exception propagates), and the updates.
\<close>

definition extract_formdata ::
  "provider \<Rightarrow> formdata_parser \<Rightarrow> authorizer \<Rightarrow> response \<Rightarrow> request_data io" where
  "extract_formdata prov get_formdata a login_page =
     bind_io
       (case get_formdata (resp_text login_page) (username a) (password a) of
          Inr formdata \<Rightarrow> return_io formdata
        | Inl ParseError \<Rightarrow>
            bind_io (logout_authserver prov) (\<lambda>_.
            bind_io (get_login_page prov a) (\<lambda>page2.
              (case get_formdata (resp_text page2) (username a) (password a) of
                 Inr formdata \<Rightarrow> return_io formdata
               | Inl e \<Rightarrow> raise_io e)))
        | Inl e \<Rightarrow> raise_io e)
       (\<lambda>formdata. return_io (FormData (finish_formdata a formdata)))"

text \<open>\<^verbatim>\<open>AuthserverAuthorizer._get_request_data\<close>.\<close>

definition get_request_data ::
  "provider \<Rightarrow> formdata_parser \<Rightarrow> authorizer \<Rightarrow> request_data io" where
  "get_request_data prov get_formdata a =
     bind_io (get_login_page prov a) (\<lambda>login_page.
       if status_code login_page = 302 then
         (if \<not> force_relogin a then return_io (ResponseObject login_page)
          else bind_io (logout_authserver prov) (\<lambda>_.
               bind_io (get_login_page prov a) (\<lambda>login_page2.
                 extract_formdata prov get_formdata a login_page2)))
       else if status_code login_page \<noteq> 200 then raise_io (UnknownAuthserverException None)
       else extract_formdata prov get_formdata a login_page)"

text \<open>\<^verbatim>\<open>AuthserverAuthorizer._need_captcha\<close>: the probe carries no timeout.\<close>

definition need_captcha :: "provider \<Rightarrow> authorizer \<Rightarrow> string option io" where
  "need_captcha prov a =
     bind_io (session_get prov AUTHSERVER_CAPTCHA_DETERMINE_URL
                (Some [(''username'', username a)]) True None) (\<lambda>r.
       if resp_text r = ''true'' then return_io (Some AUTHSERVER_CAPTCHA_IMAGE_URL)
       else return_io None)"

text \<open>
  \<^verbatim>\<open>AuthserverAuthorizer._need_captcha_handler\<close> mutates the dictionary object it is
  given: the store maps the address of each dictionary object to its contents, and
  \<open>request_data\<close> is the address of the argument. The assigned value is the argument
  \<^verbatim>\<open>request_data\<close> itself, a reference to the same object; \<open>captcha\<close> is not used.
\<close>

type_synonym store = "addr \<Rightarrow> pydict"

definition need_captcha_handler :: "string \<Rightarrow> addr \<Rightarrow> store \<Rightarrow> store" where
  "need_captcha_handler captcha request_data h =
     h(request_data := AList.update ''captchaResponse'' (PDictRef request_data) (h request_data))"

text \<open>
  \<^verbatim>\<open>login_resp.headers['Location']\<close> raises \<^verbatim>\<open>KeyError\<close> when the header is absent.
  \<^verbatim>\<open>AuthserverAuthorizer._redirect_to_service\<close> passes no timeout.
\<close>

definition redirect_to_service :: "provider \<Rightarrow> response \<Rightarrow> response io" where
  "redirect_to_service prov login_resp =
     (case map_of (headers login_resp) ''Location'' of
        None \<Rightarrow> raise_io (KeyError ''Location'')
      | Some loc \<Rightarrow> session_get prov loc None False None)"

text \<open>
  \<^verbatim>\<open>_LoginedPageParser\<close> belongs to the module \<^verbatim>\<open>_page_parser\<close>: it is a parameter, from
  the status code and the text fed to it to the three attributes the caller reads, or an
  exception.
\<close>

record logined_page =
  kick_flag :: bool
  kick_execution :: string
  cancel_execution :: string

type_synonym logined_page_parser = "int \<Rightarrow> string \<Rightarrow> error + logined_page"

text \<open>The closures \<^verbatim>\<open>kick\<close> and \<^verbatim>\<open>cancel\<close> of \<^verbatim>\<open>_handle_login_error\<close>.\<close>

definition kick :: "provider \<Rightarrow> authorizer \<Rightarrow> logined_page \<Rightarrow> response io" where
  "kick prov a parser =
     bind_io (session_post prov LOGIN_URL
                [(''execution'', PStr (kick_execution parser)), (''_eventId'', PStr ''continue'')]
                False (Some (timeout a)))
       (\<lambda>login_resp. redirect_to_service prov login_resp)"

definition cancel :: "provider \<Rightarrow> authorizer \<Rightarrow> logined_page \<Rightarrow> response io" where
  "cancel prov a parser =
     session_post prov LOGIN_URL
       [(''execution'', PStr (cancel_execution parser)), (''_eventId'', PStr ''cancel'')]
       False (Some (timeout a))"

text \<open>\<^verbatim>\<open>AuthserverAuthorizer._handle_login_error\<close>.\<close>

definition handle_login_error ::
  "provider \<Rightarrow> logined_page_parser \<Rightarrow> authorizer \<Rightarrow> response \<Rightarrow> response io" where
  "handle_login_error prov parse a login_resp =
     (case parse (status_code login_resp) (resp_text login_resp) of
        Inl e \<Rightarrow> raise_io e
      | Inr parser \<Rightarrow>
          if kick_flag parser then
            (if kick_others a then kick prov a parser
             else raise_io (MultiSessionConflict (kick prov a parser) (cancel prov a parser)))
          else raise_io (UnknownAuthserverException (Some (status_code login_resp))))"

text \<open>\<^verbatim>\<open>AuthserverAuthorizer._login\<close>: the credential submission carries no timeout.\<close>

definition login :: "provider \<Rightarrow> logined_page_parser \<Rightarrow> authorizer \<Rightarrow> pydict \<Rightarrow> response io" where
  "login prov parse a request_data =
     bind_io (session_post prov LOGIN_URL request_data False None) (\<lambda>login_resp.
       if status_code login_resp \<noteq> 302 then handle_login_error prov parse a login_resp
       else redirect_to_service prov login_resp)"

text \<open>
  \<^verbatim>\<open>access_authserver_service\<close>: the body calls \<^verbatim>\<open>AuthserverAuthorizer.access_service\<close>,
  a method of the base class that is a parameter here, and has no \<^verbatim>\<open>return\<close>: the Python value \<^verbatim>\<open>None\<close> is \<open>None\<close>, a \<^verbatim>\<open>Response\<close> would be
  \<open>Some\<close>. The decorator \<^verbatim>\<open>deprecated\<close> is taken to warn and to pass the call and its
  result through.
\<close>

definition access_authserver_service ::
  "(string \<Rightarrow> response io) \<Rightarrow> string \<Rightarrow> response option io" where
  "access_authserver_service access_service sv =
     bind_io (access_service sv) (\<lambda>_. return_io None)"

text \<open>
  Modelled from the spec: the method \<^verbatim>\<open>Authorizer.access_service\<close> of the base class,
  whose module \<^verbatim>\<open>_authorizer\<close> is missing. It requests a grant for the service from the
  login endpoint without following redirects, fails with \<open>NotLogined\<close> when the answer is
  not a redirect, and follows the redirect one hop otherwise.
\<close>

definition access_service :: "provider \<Rightarrow> string \<Rightarrow> response io" where
  "access_service prov sv =
     bind_io (session_get prov LOGIN_URL (Some [(''service'', sv)]) False None) (\<lambda>resp.
       if status_code resp \<noteq> 302 then raise_io NotLogined
       else redirect_to_service prov resp)"

subsection \<open>The calls, by name\<close>

definition credential_request :: "pydict \<Rightarrow> request" where
  "credential_request request_data =
     \<lparr>req_method = POST, req_url = LOGIN_URL, req_params = None, req_data = Some request_data,
      req_allow_redirects = False, req_timeout = None\<rparr>"

definition kick_request :: "authorizer \<Rightarrow> logined_page \<Rightarrow> request" where
  "kick_request a parser =
     \<lparr>req_method = POST, req_url = LOGIN_URL, req_params = None,
      req_data = Some [(''execution'', PStr (kick_execution parser)),
                       (''_eventId'', PStr ''continue'')],
      req_allow_redirects = False, req_timeout = Some (timeout a)\<rparr>"

definition cancel_request :: "authorizer \<Rightarrow> logined_page \<Rightarrow> request" where
  "cancel_request a parser =
     \<lparr>req_method = POST, req_url = LOGIN_URL, req_params = None,
      req_data = Some [(''execution'', PStr (cancel_execution parser)),
                       (''_eventId'', PStr ''cancel'')],
      req_allow_redirects = False, req_timeout = Some (timeout a)\<rparr>"

definition service_request :: "string \<Rightarrow> request" where
  "service_request loc =
     \<lparr>req_method = GET, req_url = loc, req_params = None, req_data = None,
      req_allow_redirects = False, req_timeout = None\<rparr>"

definition captcha_probe_request :: "authorizer \<Rightarrow> request" where
  "captcha_probe_request a =
     \<lparr>req_method = GET, req_url = AUTHSERVER_CAPTCHA_DETERMINE_URL,
      req_params = Some [(''username'', username a)], req_data = None,
      req_allow_redirects = True, req_timeout = None\<rparr>"

definition is_login_page_get :: "request \<Rightarrow> bool" where
  "is_login_page_get rq = (req_method rq = GET \<and> req_url rq = LOGIN_URL)"

definition is_post :: "request \<Rightarrow> bool" where
  "is_post rq = (req_method rq = POST)"

definition is_logout :: "request \<Rightarrow> bool" where
  "is_logout rq = (req_url rq = LOGOUT_URL)"

text \<open>
  Reading a capability off a raised exception, as \<^verbatim>\<open>e.kick()\<close> and \<^verbatim>\<open>e.cancel()\<close> do;
  another exception has no such attribute.
\<close>

fun conflict_kick :: "(error + response) \<Rightarrow> response io" where
  "conflict_kick (Inl (MultiSessionConflict k c)) = k"
| "conflict_kick _ = raise_io (AttributeError ''kick'')"

fun conflict_cancel :: "(error + response) \<Rightarrow> response io" where
  "conflict_cancel (Inl (MultiSessionConflict k c)) = c"
| "conflict_cancel _ = raise_io (AttributeError ''cancel'')"

section \<open>The campus card ticket\<close>

text \<open>
  \<^verbatim>\<open>str.find(sub, start)\<close> for \<open>0 \<le> start\<close>: the lowest index at or after \<open>start\<close>
  where \<open>sub\<close> begins, or \<open>-1\<close>. \<open>find_from sub xs i\<close> searches the rest \<open>xs\<close> of the
  text, whose head has index \<open>i\<close>.
\<close>

fun find_from :: "string \<Rightarrow> string \<Rightarrow> nat \<Rightarrow> int" where
  "find_from sub [] i = (if sub = [] then int i else - 1)"
| "find_from sub (c # cs) i =
     (if take (length sub) (c # cs) = sub then int i else find_from sub cs (Suc i))"

definition py_find :: "string \<Rightarrow> string \<Rightarrow> nat \<Rightarrow> int" where
  "py_find txt sub start =
     (if length txt < start then - 1 else find_from sub (drop start txt) start)"

text \<open>\<^verbatim>\<open>xs[a:b]\<close>: a negative bound counts from the end, and both are clamped.\<close>

definition py_bound :: "nat \<Rightarrow> int \<Rightarrow> nat" where
  "py_bound n i = (if i < 0 then nat (max 0 (int n + i)) else min (nat i) n)"

definition py_slice :: "'a list \<Rightarrow> int \<Rightarrow> int \<Rightarrow> 'a list" where
  "py_slice xs a b =
     (let lo = py_bound (length xs) a; hi = py_bound (length xs) b
      in take (hi - lo) (drop lo xs))"

text \<open>
  The form of \<^verbatim>\<open>_get_ticket\<close>; the two menu names are written as the UTF-8 bytes that
  \<^verbatim>\<open>requests\<close> sends.
\<close>

definition menu_name :: string where
  "menu_name = [CHR 0xE7, CHR 0x94, CHR 0xB5, CHR 0xE8, CHR 0xB4, CHR 0xB9, CHR 0xE3, CHR 0x80,
                CHR 0x81, CHR 0xE7, CHR 0xBD, CHR 0x91, CHR 0xE8, CHR 0xB4, CHR 0xB9]"

definition ticket_request :: request where
  "ticket_request =
     \<lparr>req_method = POST, req_url = ''http://card.cqu.edu.cn/Page/Page'', req_params = None,
      req_data = Some [(''EMenuName'', PStr menu_name), (''MenuName'', PStr menu_name),
         (''Url'', PStr ''http%3a%2f%2fcard.cqu.edu.cn%3a8080%2fblade-auth%2ftoken%2fthirdToToken%2ffwdt''),
         (''apptype'', PStr ''4''), (''flowID'', PStr ''10002'')],
      req_allow_redirects = True, req_timeout = None\<rparr>"

text \<open>\<^verbatim>\<open>_get_ticket\<close> of \<^verbatim>\<open>mycqu.card._help\<close>.\<close>

definition get_ticket :: "provider \<Rightarrow> string io" where
  "get_ticket prov =
     bind_io (session_send prov ticket_request) (\<lambda>r.
       if status_code r \<noteq> 200 then raise_io CQUWebsiteError
       else
         (let ticket_start = py_find (resp_text r) ''ticket='' 0 in
          if ticket_start > 0 then
            (let ticket_end = py_find (resp_text r) [CHR 0x27] (nat ticket_start);
                 ticket = py_slice (resp_text r) (ticket_start + int (length ''ticket=''))
                            ticket_end
             in return_io ticket)
          else raise_io TicketGetError))"

text \<open>
  Occurrences of a pattern: \<open>sub\<close> begins at index \<open>i\<close> of the text, and \<open>i\<close> is the
  first such index.
\<close>

definition occurs_at :: "string \<Rightarrow> string \<Rightarrow> nat \<Rightarrow> bool" where
  "occurs_at sub txt i = (i + length sub \<le> length txt \<and> take (length sub) (drop i txt) = sub)"

definition first_occurrence :: "string \<Rightarrow> string \<Rightarrow> nat \<Rightarrow> bool" where
  "first_occurrence sub txt i = (occurs_at sub txt i \<and> (\<forall>j<i. \<not> occurs_at sub txt j))"

section \<open>Sample providers and inputs\<close>

text \<open>A provider that answers the \<open>k\<close>-th call of the session with the \<open>k\<close>-th listed
  response, and fails after the last one.\<close>

definition scripted :: "response list \<Rightarrow> provider" where
  "scripted rs t =
     (if t = [] \<or> length rs < length t then None else Some (rs ! (length t - 1)))"

text \<open>A provider that gives every call the same answer.\<close>

definition always :: "response \<Rightarrow> provider" where
  "always r t = Some r"

definition sample_authorizer :: authorizer where
  "sample_authorizer =
     \<lparr>username = ''20201234'', password = ''pw'', service = None, timeout = 10,
      force_relogin = False, keep_longer = False, kick_others = False\<rparr>"

definition forced_authorizer :: authorizer where
  "forced_authorizer = sample_authorizer\<lparr>force_relogin := True\<rparr>"

definition kicking_authorizer :: authorizer where
  "kicking_authorizer = sample_authorizer\<lparr>kick_others := True\<rparr>"

definition redirect_page :: response where
  "redirect_page = \<lparr>status_code = 302, resp_text = [],
                     headers = [(''Location'', ''http://my.cqu.edu.cn/'')]\<rparr>"

definition form_page :: response where
  "form_page = \<lparr>status_code = 200, resp_text = ''form'', headers = []\<rparr>"

definition stale_page :: response where
  "stale_page = \<lparr>status_code = 200, resp_text = ''stale'', headers = []\<rparr>"

definition conflict_page :: response where
  "conflict_page = \<lparr>status_code = 200, resp_text = ''conflict'', headers = []\<rparr>"

definition plain_page :: response where
  "plain_page = \<lparr>status_code = 200, resp_text = [], headers = []\<rparr>"

definition quoted_ticket_page :: response where
  "quoted_ticket_page =
     \<lparr>status_code = 200, resp_text = ''url?ticket=ST-1'' @ CHR 0x27 # '';'', headers = []\<rparr>"

definition unquoted_ticket_page :: response where
  "unquoted_ticket_page = \<lparr>status_code = 200, resp_text = ''xticket=abc'', headers = []\<rparr>"

definition sample_get_formdata :: formdata_parser where
  "sample_get_formdata txt u p =
     (if txt = ''form''
      then Inr [(''username'', PStr u), (''password'', PStr p), (''lt'', PStr ''LT-1''),
                (''captchaResponse'', PStr [])]
      else Inl ParseError)"

definition sample_formdata :: pydict where
  "sample_formdata = [(''username'', PStr ''20201234''), (''password'', PStr ''pw''),
                      (''lt'', PStr ''LT-1'')]"

definition sample_logined_page :: logined_page where
  "sample_logined_page = \<lparr>kick_flag = True, kick_execution = ''e1s2'', cancel_execution = ''e1s3''\<rparr>"

definition sample_page_parser :: logined_page_parser where
  "sample_page_parser st txt =
     (if txt = ''conflict'' then Inr sample_logined_page
      else Inr \<lparr>kick_flag = False, kick_execution = [], cancel_execution = []\<rparr>)"

section \<open>Basic facts about the session\<close>

lemma session_send_Some: "prov (s @ [rq]) = Some r \<Longrightarrow> session_send prov rq s = (Inr r, s @ [rq])"
  by (simp add: session_send_def)

lemma session_send_None:
  "prov (s @ [rq]) = None \<Longrightarrow> session_send prov rq s = (Inl RequestException, s @ [rq])"
  by (simp add: session_send_def)

lemma get_login_page_send: "get_login_page prov a = session_send prov (login_page_request a)"
  by (simp add: get_login_page_def session_get_def login_page_request_def)

lemma logout_authserver_Some:
  "prov (s @ [logout_request]) = Some r \<Longrightarrow> logout_authserver prov s = (Inr (), s @ [logout_request])"
  by (simp add: logout_authserver_def logout_def bind_io_def session_send_def return_io_def)

lemma logout_authserver_None:
  "prov (s @ [logout_request]) = None \<Longrightarrow>
   logout_authserver prov s = (Inl RequestException, s @ [logout_request])"
  by (simp add: logout_authserver_def logout_def bind_io_def session_send_def)

lemma credential_post_send:
  "session_post prov LOGIN_URL d False None = session_send prov (credential_request d)"
  by (simp add: session_post_def credential_request_def)

lemma kick_post_send:
  "session_post prov LOGIN_URL
     [(''execution'', PStr (kick_execution pg)), (''_eventId'', PStr ''continue'')]
     False (Some (timeout a)) = session_send prov (kick_request a pg)"
  by (simp add: session_post_def kick_request_def)

lemma cancel_send: "cancel prov a pg = session_send prov (cancel_request a pg)"
  by (simp add: cancel_def session_post_def cancel_request_def)

lemma service_get_send: "session_get prov loc None False None = session_send prov (service_request loc)"
  by (simp add: session_get_def service_request_def)

lemma redirect_to_service_Some:
  "map_of (headers r) ''Location'' = Some loc \<Longrightarrow>
   redirect_to_service prov r = session_send prov (service_request loc)"
  by (simp add: redirect_to_service_def service_get_send)

lemma redirect_to_service_None:
  "map_of (headers r) ''Location'' = None \<Longrightarrow>
   redirect_to_service prov r s = (Inl (KeyError ''Location''), s)"
  by (simp add: redirect_to_service_def raise_io_def)

lemma scripted_Cons:
  "scripted rs (rq # t) = (if length rs < Suc (length t) then None else Some (rs ! length t))"
  by (simp add: scripted_def)

lemma login_page_request_is_get [simp]: "is_login_page_get (login_page_request a)"
  by (simp add: is_login_page_get_def login_page_request_def)

lemma logout_request_no_login_get [simp]: "\<not> is_login_page_get logout_request"
  by (simp add: is_login_page_get_def logout_request_def LOGIN_URL_def LOGOUT_URL_def)

lemma fetches_are_no_post [simp]: "\<not> is_post (login_page_request a)" "\<not> is_post logout_request"
  by (simp_all add: is_post_def login_page_request_def logout_request_def)

section \<open>The calls made while the submission data are assembled\<close>

text \<open>The calls that lines 71 to 82 add to the session.\<close>

lemma extract_formdata_trace:
  "snd (extract_formdata prov gf a p s) \<in>
     {s, s @ [logout_request], s @ [logout_request, login_page_request a]}"
proof (cases "gf (resp_text p) (username a) (password a)")
  case (Inr fd)
  then show ?thesis
    by (simp add: extract_formdata_def bind_io_def return_io_def)
next
  case (Inl e)
  show ?thesis
  proof (cases "e = ParseError")
    case False
    with Inl show ?thesis
      by (cases e) (simp_all add: extract_formdata_def bind_io_def raise_io_def)
  next
    case True
    note pe = Inl [unfolded True]
    show ?thesis
    proof (cases "prov (s @ [logout_request])")
      case None
      with pe show ?thesis
        by (simp add: extract_formdata_def bind_io_def logout_authserver_None)
    next
      case (Some x)
      have lo: "logout_authserver prov s = (Inr (), s @ [logout_request])"
        using Some by (rule logout_authserver_Some)
      show ?thesis
      proof (cases "prov (s @ [logout_request, login_page_request a])")
        case None
        with pe lo show ?thesis
          by (simp add: extract_formdata_def bind_io_def get_login_page_send session_send_def)
      next
        case (Some p2)
        with pe lo show ?thesis
          by (cases "gf (resp_text p2) (username a) (password a)")
            (simp_all add: extract_formdata_def bind_io_def get_login_page_send session_send_def
               return_io_def raise_io_def)
      qed
    qed
  qed
qed

text \<open>The five logs that \<open>get_request_data\<close> can leave behind.\<close>

lemma get_request_data_trace:
  "snd (get_request_data prov gf a s) \<in>
     {s @ [login_page_request a],
      s @ [login_page_request a, logout_request],
      s @ [login_page_request a, logout_request, login_page_request a],
      s @ [login_page_request a, logout_request, login_page_request a, logout_request],
      s @ [login_page_request a, logout_request, login_page_request a, logout_request,
           login_page_request a]}"
proof (cases "prov (s @ [login_page_request a])")
  case None
  then show ?thesis
    by (simp add: get_request_data_def bind_io_def get_login_page_send session_send_def)
next
  case (Some p)
  let ?s1 = "s @ [login_page_request a]"
  have first: "get_login_page prov a s = (Inr p, ?s1)"
    using Some by (simp add: get_login_page_send session_send_def)
  consider (redirect) "status_code p = 302" "\<not> force_relogin a"
    | (forced) "status_code p = 302" "force_relogin a"
    | (other) "status_code p \<noteq> 302" "status_code p \<noteq> 200"
    | (ok) "status_code p = 200"
    by fastforce
  then show ?thesis
  proof cases
    case redirect
    with first show ?thesis
      by (simp add: get_request_data_def bind_io_def return_io_def)
  next
    case other
    with first show ?thesis
      by (simp add: get_request_data_def bind_io_def raise_io_def)
  next
    case ok
    with first have "get_request_data prov gf a s = extract_formdata prov gf a p ?s1"
      by (simp add: get_request_data_def bind_io_def)
    with extract_formdata_trace [of prov gf a p ?s1] show ?thesis
      by auto
  next
    case forced
    show ?thesis
    proof (cases "prov (?s1 @ [logout_request])")
      case None
      with first forced show ?thesis
        by (simp add: get_request_data_def bind_io_def logout_authserver_None)
    next
      case (Some x)
      let ?s2 = "?s1 @ [logout_request]"
      have lo: "logout_authserver prov ?s1 = (Inr (), ?s2)"
        using Some by (rule logout_authserver_Some)
      show ?thesis
      proof (cases "prov (?s2 @ [login_page_request a])")
        case None
        with first forced lo show ?thesis
          by (simp add: get_request_data_def bind_io_def get_login_page_send session_send_def)
      next
        case (Some p2)
        with first forced lo
        have "get_request_data prov gf a s =
                extract_formdata prov gf a p2 (?s2 @ [login_page_request a])"
          by (simp add: get_request_data_def bind_io_def get_login_page_send session_send_def)
        with extract_formdata_trace [of prov gf a p2 "?s2 @ [login_page_request a]"]
        show ?thesis
          by auto
      qed
    qed
  qed
qed

text \<open>
  C2, as stated: at most 2 requests to the login-page endpoint before the credential
  submission. It fails for a session that is logged in, with \<open>force_relogin\<close> set, when the
  page fetched after the logout does not parse: the login page is requested three times.
\<close>

theorem three_login_page_fetches_counterexample:
  "length (filter is_login_page_get
     (snd (get_request_data (scripted [redirect_page, plain_page, stale_page, plain_page, form_page])
             sample_get_formdata forced_authorizer []))) = 3"
  by (simp add: get_request_data_def extract_formdata_def get_login_page_send
      logout_authserver_def logout_def bind_io_def session_send_def scripted_Cons return_io_def
      raise_io_def redirect_page_def plain_page_def stale_page_def form_page_def
      sample_get_formdata_def sample_authorizer_def forced_authorizer_def)

text \<open>
  C2, amended: whatever the arguments and the provider's answers, \<open>get_request_data\<close>
  issues at most 3 GET requests to the login-page endpoint, and no POST at all, so at most
  3 such requests precede the credential submission.
\<close>

theorem at_most_three_login_page_fetches:
  "length (filter is_login_page_get (drop (length s) (snd (get_request_data prov gf a s)))) \<le> 3
   \<and> filter is_post (drop (length s) (snd (get_request_data prov gf a s))) = []"
  using get_request_data_trace [of prov gf a s] by auto

text \<open>
  C9: when the first fetch of the login page is answered with status 302 and
  \<open>force_relogin\<close> is false, \<open>get_request_data\<close> returns that response object itself, not a
  form dictionary, after this single request.
\<close>

theorem already_logined_returns_response:
  assumes "prov (s @ [login_page_request a]) = Some r"
    and "status_code r = 302"
    and "\<not> force_relogin a"
  shows "get_request_data prov get_formdata a s = (Inr (ResponseObject r), s @ [login_page_request a])"
  using assms
  by (simp add: get_request_data_def get_login_page_send bind_io_def session_send_def return_io_def)

theorem already_logined_returns_response_witness:
  "get_request_data (always redirect_page) sample_get_formdata sample_authorizer []
     = (Inr (ResponseObject redirect_page), [login_page_request sample_authorizer])"
  using already_logined_returns_response
    [of "always redirect_page" "[]" sample_authorizer redirect_page sample_get_formdata]
  by (simp add: always_def redirect_page_def sample_authorizer_def)

section \<open>The CAPTCHA answer\<close>

text \<open>
  C1: the resolved answer string should be stored in the CAPTCHA-answer field. The handler
  stores a reference to the request dictionary itself there, for every answer, dictionary
  and store; the field never holds the answer.
\<close>

theorem captcha_handler_stores_reference:
  "map_of (need_captcha_handler captcha request_data h request_data) ''captchaResponse''
     = Some (PDictRef request_data)
   \<and> map_of (need_captcha_handler captcha request_data h request_data) ''captchaResponse''
     \<noteq> Some (PStr captcha)"
  by (simp add: need_captcha_handler_def update_Some_unfold)

section \<open>Forced re-login\<close>

text \<open>
  C3, as stated: with \<open>force_relogin\<close> a logout precedes any credential submission, also
  when the first fetch is not a redirect. It fails on a fresh session: the first fetch is
  answered with the form (status 200), \<open>get_request_data\<close> returns the form data after
  that single request, the CAPTCHA probe finds none required, and \<open>login\<close> submits the
  credentials; no call of the whole run goes to the logout endpoint.
\<close>

theorem forced_relogin_without_logout_counterexample:
  "force_relogin forced_authorizer
   \<and> get_request_data (scripted [form_page, plain_page, redirect_page, plain_page])
         sample_get_formdata forced_authorizer []
       = (Inr (FormData sample_formdata), [login_page_request forced_authorizer])
   \<and> need_captcha (scripted [form_page, plain_page, redirect_page, plain_page])
         forced_authorizer [login_page_request forced_authorizer]
       = (Inr None, [login_page_request forced_authorizer, captcha_probe_request forced_authorizer])
   \<and> login (scripted [form_page, plain_page, redirect_page, plain_page]) sample_page_parser
         forced_authorizer sample_formdata
         [login_page_request forced_authorizer, captcha_probe_request forced_authorizer]
       = (Inr plain_page,
          [login_page_request forced_authorizer, captcha_probe_request forced_authorizer,
           credential_request sample_formdata, service_request ''http://my.cqu.edu.cn/''])
   \<and> filter is_logout
         [login_page_request forced_authorizer, captcha_probe_request forced_authorizer,
          credential_request sample_formdata, service_request ''http://my.cqu.edu.cn/''] = []"
  apply (intro conjI)
      apply (simp add: sample_authorizer_def forced_authorizer_def)
     apply (simp add: get_request_data_def extract_formdata_def get_login_page_send
      bind_io_def session_send_def scripted_Cons return_io_def finish_formdata_def
      form_page_def sample_get_formdata_def sample_authorizer_def sample_formdata_def
      forced_authorizer_def)
    apply (simp add: need_captcha_def session_get_def captcha_probe_request_def bind_io_def
      session_send_def scripted_Cons return_io_def plain_page_def)
   apply (simp add: login_def credential_post_send bind_io_def session_send_def scripted_Cons
      redirect_to_service_def service_get_send redirect_page_def)
  apply (simp add: is_logout_def login_page_request_def credential_request_def service_request_def
      captcha_probe_request_def LOGIN_URL_def LOGOUT_URL_def AUTHSERVER_CAPTCHA_DETERMINE_URL_def)
  done

text \<open>
  C3, amended: with \<open>force_relogin\<close>, when the first fetch of the login page is answered
  with a redirect (status 302), the logout request is the next call after that fetch, and
  \<open>get_request_data\<close> issues no POST: the logout precedes any credential submission.
\<close>

theorem forced_relogin_logs_out_first:
  assumes "force_relogin a"
    and "prov (s @ [login_page_request a]) = Some r"
    and "status_code r = 302"
  shows "take (length s + 2) (snd (get_request_data prov gf a s))
           = s @ [login_page_request a, logout_request]
         \<and> filter is_post (drop (length s) (snd (get_request_data prov gf a s))) = []"
proof -
  let ?s1 = "s @ [login_page_request a]"
  have first: "get_login_page prov a s = (Inr r, ?s1)"
    using assms(2) by (simp add: get_login_page_send session_send_def)
  have "\<exists>t. snd (get_request_data prov gf a s) = ?s1 @ logout_request # t"
  proof (cases "prov (?s1 @ [logout_request])")
    case None
    with first assms show ?thesis
      by (simp add: get_request_data_def bind_io_def logout_authserver_None)
  next
    case (Some x)
    let ?s2 = "?s1 @ [logout_request]"
    have lo: "logout_authserver prov ?s1 = (Inr (), ?s2)"
      using Some by (rule logout_authserver_Some)
    show ?thesis
    proof (cases "prov (?s2 @ [login_page_request a])")
      case None
      with first assms lo show ?thesis
        by (simp add: get_request_data_def bind_io_def get_login_page_send session_send_def)
    next
      case (Some p2)
      with first assms lo
      have "get_request_data prov gf a s =
              extract_formdata prov gf a p2 (?s2 @ [login_page_request a])"
        by (simp add: get_request_data_def bind_io_def get_login_page_send session_send_def)
      with extract_formdata_trace [of prov gf a p2 "?s2 @ [login_page_request a]"]
      show ?thesis
        by auto
    qed
  qed
  then obtain t where t: "snd (get_request_data prov gf a s) = ?s1 @ logout_request # t" ..
  have "take (length s + 2) (snd (get_request_data prov gf a s))
          = s @ [login_page_request a, logout_request]"
    by (simp add: t)
  moreover have "filter is_post (drop (length s) (snd (get_request_data prov gf a s))) = []"
    using get_request_data_trace [of prov gf a s] by auto
  ultimately show ?thesis by simp
qed

theorem forced_relogin_logs_out_first_witness:
  "take 2 (snd (get_request_data (scripted [redirect_page, plain_page, form_page])
                  sample_get_formdata forced_authorizer []))
     = [login_page_request forced_authorizer, logout_request]
   \<and> filter is_post (snd (get_request_data (scripted [redirect_page, plain_page, form_page])
                  sample_get_formdata forced_authorizer [])) = []"
proof -
  have h1: "force_relogin forced_authorizer"
    by (simp add: forced_authorizer_def sample_authorizer_def)
  have h2: "scripted [redirect_page, plain_page, form_page]
              ([] @ [login_page_request forced_authorizer]) = Some redirect_page"
    by (simp add: scripted_def)
  have h3: "status_code redirect_page = 302"
    by (simp add: redirect_page_def)
  show ?thesis
    using forced_relogin_logs_out_first
      [where prov = "scripted [redirect_page, plain_page, form_page]" and s = "[]"
         and gf = sample_get_formdata, OF h1 h2 h3]
    by (simp add: numeral_2_eq_2)
qed

section \<open>Timeouts\<close>

text \<open>
  C5: every network call of a login should carry the caller's timeout. With the timeout
  10, the credential POST and the GET that follows its redirect, both issued by \<open>login\<close>,
  and the CAPTCHA probe of \<open>need_captcha\<close> are sent with no timeout at all.
\<close>

theorem calls_without_timeout:
  "timeout sample_authorizer = 10
   \<and> login (scripted [redirect_page, plain_page]) sample_page_parser sample_authorizer
         sample_formdata []
       = (Inr plain_page,
          [credential_request sample_formdata, service_request ''http://my.cqu.edu.cn/''])
   \<and> map req_timeout
         [credential_request sample_formdata, service_request ''http://my.cqu.edu.cn/'']
       = [None, None]
   \<and> snd (need_captcha (always plain_page) sample_authorizer [])
       = [captcha_probe_request sample_authorizer]
   \<and> req_timeout (captcha_probe_request sample_authorizer) = None"
  apply (intro conjI)
      apply (simp add: sample_authorizer_def)
     apply (simp add: login_def credential_post_send bind_io_def session_send_def scripted_Cons
      redirect_to_service_def service_get_send redirect_page_def)
    apply (simp add: credential_request_def service_request_def)
   apply (simp add: need_captcha_def session_get_def captcha_probe_request_def bind_io_def
      session_send_def always_def return_io_def)
  apply (simp add: captcha_probe_request_def)
  done

section \<open>The retry after a failed extraction\<close>

lemma extract_formdata_retry:
  assumes "gf (resp_text p) (username a) (password a) = Inl ParseError"
    and "prov (t @ [logout_request]) = Some y"
    and "prov (t @ [logout_request, login_page_request a]) = Some p'"
  shows "extract_formdata prov gf a p t =
           (case gf (resp_text p') (username a) (password a) of
              Inl e \<Rightarrow> Inl e
            | Inr fd \<Rightarrow> Inr (FormData (finish_formdata a fd)),
            t @ [logout_request, login_page_request a])"
proof -
  have lo: "logout_authserver prov t = (Inr (), t @ [logout_request])"
    using assms(2) by (rule logout_authserver_Some)
  show ?thesis
    using assms(1,3) lo
    by (cases "gf (resp_text p') (username a) (password a)")
      (simp_all add: extract_formdata_def bind_io_def get_login_page_send session_send_def
        return_io_def raise_io_def)
qed

text \<open>
  C6: when the extraction of the form fields fails with \<open>ParseError\<close> on the page held
  (the first page on status 200, the page fetched after the forced logout on status 302
  with \<open>force_relogin\<close>; \<open>pre\<close> is the log at that moment) and the provider answers the
  next two calls, these calls are exactly one logout and one fetch of the login page and
  nothing follows them: a second \<open>ParseError\<close> is raised to the caller, and a successful
  second extraction gives the form data.
\<close>

theorem parse_error_retries_once:
  assumes first: "prov (s @ [login_page_request a]) = Some q"
    and path: "status_code q = 200 \<and> pre = s @ [login_page_request a] \<and> p = q
      \<or> status_code q = 302 \<and> force_relogin a
        \<and> prov (s @ [login_page_request a, logout_request]) = Some x
        \<and> prov (s @ [login_page_request a, logout_request, login_page_request a]) = Some p
        \<and> pre = s @ [login_page_request a, logout_request, login_page_request a]"
    and fails: "gf (resp_text p) (username a) (password a) = Inl ParseError"
    and logout_answered: "prov (pre @ [logout_request]) = Some y"
    and refetched: "prov (pre @ [logout_request, login_page_request a]) = Some p'"
  shows "snd (get_request_data prov gf a s) = pre @ [logout_request, login_page_request a]
    \<and> (gf (resp_text p') (username a) (password a) = Inl ParseError \<longrightarrow>
         get_request_data prov gf a s
           = (Inl ParseError, pre @ [logout_request, login_page_request a]))
    \<and> (\<forall>fd. gf (resp_text p') (username a) (password a) = Inr fd \<longrightarrow>
         get_request_data prov gf a s
           = (Inr (FormData (finish_formdata a fd)), pre @ [logout_request, login_page_request a]))"
proof -
  have start: "get_login_page prov a s = (Inr q, s @ [login_page_request a])"
    using first by (simp add: get_login_page_send session_send_def)
  have "get_request_data prov gf a s = extract_formdata prov gf a p pre"
    using path
  proof
    assume "status_code q = 200 \<and> pre = s @ [login_page_request a] \<and> p = q"
    with start show ?thesis
      by (simp add: get_request_data_def bind_io_def)
  next
    assume forced: "status_code q = 302 \<and> force_relogin a
        \<and> prov (s @ [login_page_request a, logout_request]) = Some x
        \<and> prov (s @ [login_page_request a, logout_request, login_page_request a]) = Some p
        \<and> pre = s @ [login_page_request a, logout_request, login_page_request a]"
    then have "prov ((s @ [login_page_request a]) @ [logout_request]) = Some x"
      by simp
    then have lo: "logout_authserver prov (s @ [login_page_request a])
                     = (Inr (), (s @ [login_page_request a]) @ [logout_request])"
      by (rule logout_authserver_Some)
    from forced start lo show ?thesis
      by (simp add: get_request_data_def bind_io_def get_login_page_send session_send_def)
  qed
  then show ?thesis
    using extract_formdata_retry [of gf p a prov pre y p', OF fails logout_answered refetched]
    by simp
qed

theorem parse_error_retries_once_witness:
  "get_request_data (scripted [stale_page, plain_page, stale_page]) sample_get_formdata
     sample_authorizer []
   = (Inl ParseError,
      [login_page_request sample_authorizer, logout_request, login_page_request sample_authorizer])"
proof -
  let ?prov = "scripted [stale_page, plain_page, stale_page]"
  let ?lg = "login_page_request sample_authorizer"
  have h1: "?prov ([] @ [?lg]) = Some stale_page"
    by (simp add: scripted_def)
  have h2: "status_code stale_page = 200 \<and> [?lg] = [] @ [?lg] \<and> stale_page = stale_page
      \<or> status_code stale_page = 302 \<and> force_relogin sample_authorizer
        \<and> ?prov ([] @ [?lg, logout_request]) = Some plain_page
        \<and> ?prov ([] @ [?lg, logout_request, ?lg]) = Some stale_page
        \<and> [?lg] = [] @ [?lg, logout_request, ?lg]"
    by (simp add: stale_page_def)
  have h3: "sample_get_formdata (resp_text stale_page) (username sample_authorizer)
              (password sample_authorizer) = Inl ParseError"
    by (simp add: sample_get_formdata_def stale_page_def)
  have h4: "?prov ([?lg] @ [logout_request]) = Some plain_page"
    by (simp add: scripted_def)
  have h5: "?prov ([?lg] @ [logout_request, ?lg]) = Some stale_page"
    by (simp add: scripted_def)
  show ?thesis
    using parse_error_retries_once
      [where prov = ?prov and s = "[]" and a = sample_authorizer and gf = sample_get_formdata
         and pre = "[?lg]" and p = stale_page and q = stale_page and x = plain_page
         and y = plain_page and p' = stale_page, OF h1 h2 h3 h4 h5]
      h3
    by simp
qed

section \<open>A conflict with another session\<close>

lemma kick_trace:
  "\<exists>t. snd (kick prov a pg s) = s @ kick_request a pg # t"
proof (cases "prov (s @ [kick_request a pg])")
  case None
  then show ?thesis
    by (simp add: kick_def kick_post_send bind_io_def session_send_def)
next
  case (Some kresp)
  then have k: "kick prov a pg s = redirect_to_service prov kresp (s @ [kick_request a pg])"
    by (simp add: kick_def kick_post_send bind_io_def session_send_def)
  show ?thesis
    by (cases "map_of (headers kresp) ''Location''"; cases "prov (s @ [kick_request a pg, service_request (the (map_of (headers kresp) ''Location''))])")
      (simp_all add: k redirect_to_service_def raise_io_def service_get_send session_send_def)
qed

lemma kick_no_conflict: "fst (kick prov a pg s) \<noteq> Inl (MultiSessionConflict k c)"
proof (cases "prov (s @ [kick_request a pg])")
  case None
  then show ?thesis
    by (simp add: kick_def kick_post_send bind_io_def session_send_def)
next
  case (Some kresp)
  then have k: "kick prov a pg s = redirect_to_service prov kresp (s @ [kick_request a pg])"
    by (simp add: kick_def kick_post_send bind_io_def session_send_def)
  show ?thesis
    by (cases "map_of (headers kresp) ''Location''"; cases "prov (s @ [kick_request a pg, service_request (the (map_of (headers kresp) ''Location''))])")
      (simp_all add: k redirect_to_service_def raise_io_def service_get_send session_send_def)
qed

lemma kick_success:
  assumes "prov (s @ [kick_request a pg]) = Some kresp"
    and "map_of (headers kresp) ''Location'' = Some loc"
    and "prov (s @ [kick_request a pg, service_request loc]) = Some final"
  shows "kick prov a pg s = (Inr final, s @ [kick_request a pg, service_request loc])"
  using assms
  by (simp add: kick_def kick_post_send bind_io_def session_send_def redirect_to_service_def
      service_get_send)

text \<open>
  C7, as stated: with \<open>kick_others\<close>, every login whose credential submission is answered
  with a conflict page completes as a successful login. It fails when the provider answers
  the kick request with a page that carries no \<open>Location\<close> header: the closure reads the
  header without looking at the status, and \<open>login\<close> ends with \<open>KeyError\<close> after the
  kick request.
\<close>

theorem kick_without_redirect_counterexample:
  "kick_others kicking_authorizer
   \<and> status_code conflict_page \<noteq> 302
   \<and> sample_page_parser (status_code conflict_page) (resp_text conflict_page)
       = Inr sample_logined_page
   \<and> kick_flag sample_logined_page
   \<and> login (scripted [conflict_page, plain_page, plain_page]) sample_page_parser
         kicking_authorizer sample_formdata []
       = (Inl (KeyError ''Location''),
          [credential_request sample_formdata,
           kick_request kicking_authorizer sample_logined_page])"
proof -
  let ?prov = "scripted [conflict_page, plain_page, plain_page]"
  have kicks: "kick_others kicking_authorizer"
    by (simp add: kicking_authorizer_def sample_authorizer_def)
  have status: "status_code conflict_page \<noteq> 302"
    by (simp add: conflict_page_def)
  have parsed: "sample_page_parser (status_code conflict_page) (resp_text conflict_page)
                  = Inr sample_logined_page"
    by (simp add: sample_page_parser_def conflict_page_def)
  have flag: "kick_flag sample_logined_page"
    by (simp add: sample_logined_page_def)
  have run: "login ?prov sample_page_parser kicking_authorizer sample_formdata []
               = kick ?prov kicking_authorizer sample_logined_page
                   [credential_request sample_formdata]"
    using kicks status parsed flag
    by (simp add: login_def credential_post_send bind_io_def session_send_def scripted_Cons
        handle_login_error_def)
  have "kick ?prov kicking_authorizer sample_logined_page [credential_request sample_formdata]
          = (Inl (KeyError ''Location''),
             [credential_request sample_formdata,
              kick_request kicking_authorizer sample_logined_page])"
    by (simp add: kick_def kick_post_send bind_io_def session_send_def scripted_Cons
        redirect_to_service_def plain_page_def raise_io_def)
  with run kicks status parsed flag show ?thesis
    by simp
qed

text \<open>
  C7, amended: with \<open>kick_others\<close>, when the credential submission is answered with a page
  that is not a redirect and that the parser marks as a conflict, \<open>login\<close> raises no
  \<open>MultiSessionConflict\<close>; the kick request, carrying the kick token, is the call right
  after the submission; and when the provider answers it with a \<open>Location\<close> header and
  answers the request to that location, \<open>login\<close> returns that last response, as a
  successful login does.
\<close>

theorem kick_others_never_conflicts:
  assumes "kick_others a"
    and "prov (s @ [credential_request d]) = Some resp"
    and "status_code resp \<noteq> 302"
    and "parse (status_code resp) (resp_text resp) = Inr pg"
    and "kick_flag pg"
  shows "(\<forall>k c. fst (login prov parse a d s) \<noteq> Inl (MultiSessionConflict k c))
    \<and> take (length s + 2) (snd (login prov parse a d s))
        = s @ [credential_request d, kick_request a pg]
    \<and> (\<forall>kresp loc final.
          prov (s @ [credential_request d, kick_request a pg]) = Some kresp
          \<and> map_of (headers kresp) ''Location'' = Some loc
          \<and> prov (s @ [credential_request d, kick_request a pg, service_request loc]) = Some final
          \<longrightarrow> login prov parse a d s
              = (Inr final, s @ [credential_request d, kick_request a pg, service_request loc]))"
proof -
  have run: "login prov parse a d s = kick prov a pg (s @ [credential_request d])"
    using assms
    by (simp add: login_def credential_post_send bind_io_def session_send_def
        handle_login_error_def)
  obtain t where t: "snd (kick prov a pg (s @ [credential_request d]))
                       = (s @ [credential_request d]) @ kick_request a pg # t"
    using kick_trace [of prov a pg "s @ [credential_request d]"] by blast
  have "\<forall>k c. fst (login prov parse a d s) \<noteq> Inl (MultiSessionConflict k c)"
    by (simp add: run kick_no_conflict)
  moreover have "take (length s + 2) (snd (login prov parse a d s))
        = s @ [credential_request d, kick_request a pg]"
    by (simp add: run t)
  moreover have "\<forall>kresp loc final.
          prov (s @ [credential_request d, kick_request a pg]) = Some kresp
          \<and> map_of (headers kresp) ''Location'' = Some loc
          \<and> prov (s @ [credential_request d, kick_request a pg, service_request loc]) = Some final
          \<longrightarrow> login prov parse a d s
              = (Inr final, s @ [credential_request d, kick_request a pg, service_request loc])"
    using kick_success [of prov "s @ [credential_request d]" a pg]
    by (simp add: run)
  ultimately show ?thesis
    by blast
qed

theorem kick_others_never_conflicts_witness:
  "login (scripted [conflict_page, redirect_page, plain_page]) sample_page_parser
     kicking_authorizer sample_formdata []
   = (Inr plain_page,
      [credential_request sample_formdata, kick_request kicking_authorizer sample_logined_page,
       service_request ''http://my.cqu.edu.cn/''])"
proof -
  let ?prov = "scripted [conflict_page, redirect_page, plain_page]"
  have h1: "kick_others kicking_authorizer"
    by (simp add: kicking_authorizer_def sample_authorizer_def)
  have h2: "?prov ([] @ [credential_request sample_formdata]) = Some conflict_page"
    by (simp add: scripted_def)
  have h3: "status_code conflict_page \<noteq> 302"
    by (simp add: conflict_page_def)
  have h4: "sample_page_parser (status_code conflict_page) (resp_text conflict_page)
              = Inr sample_logined_page"
    by (simp add: sample_page_parser_def conflict_page_def)
  have h5: "kick_flag sample_logined_page"
    by (simp add: sample_logined_page_def)
  have h6: "?prov ([] @ [credential_request sample_formdata,
                         kick_request kicking_authorizer sample_logined_page])
              = Some redirect_page"
    by (simp add: scripted_def)
  have h7: "map_of (headers redirect_page) ''Location'' = Some ''http://my.cqu.edu.cn/''"
    by (simp add: redirect_page_def)
  have h8: "?prov ([] @ [credential_request sample_formdata,
                         kick_request kicking_authorizer sample_logined_page,
                         service_request ''http://my.cqu.edu.cn/'']) = Some plain_page"
    by (simp add: scripted_def)
  show ?thesis
    using kick_others_never_conflicts
      [where prov = ?prov and s = "[]" and a = kicking_authorizer and d = sample_formdata
         and parse = sample_page_parser and resp = conflict_page and pg = sample_logined_page,
       OF h1 h2 h3 h4 h5]
      h6 h7 h8
    by simp
qed

section \<open>The deprecated wrapper of the service access\<close>

text \<open>
  C8: for every session, service and underlying \<open>access_service\<close>, the wrapper never
  returns a response; the underlying call is performed (the session afterwards is the one
  it leaves); when that call returns, the wrapper returns \<open>None\<close>, and when it raises, the
  exception propagates.
\<close>

theorem deprecated_access_returns_none:
  "(\<forall>r. fst (access_authserver_service acc sv s) \<noteq> Inr (Some r))
   \<and> snd (access_authserver_service acc sv s) = snd (acc sv s)
   \<and> (\<forall>r. fst (acc sv s) = Inr r \<longrightarrow> fst (access_authserver_service acc sv s) = Inr None)
   \<and> (\<forall>e. fst (acc sv s) = Inl e \<longrightarrow> fst (access_authserver_service acc sv s) = Inl e)"
  by (cases "acc sv s"; cases "fst (acc sv s)")
    (simp_all add: access_authserver_service_def bind_io_def return_io_def)

theorem deprecated_access_returns_none_witness:
  "access_service (scripted [redirect_page, plain_page]) ''http://my.cqu.edu.cn/'' []
     = (Inr plain_page,
        [\<lparr>req_method = GET, req_url = LOGIN_URL,
          req_params = Some [(''service'', ''http://my.cqu.edu.cn/'')], req_data = None,
          req_allow_redirects = False, req_timeout = None\<rparr>,
         service_request ''http://my.cqu.edu.cn/''])
   \<and> access_authserver_service (access_service (scripted [redirect_page, plain_page]))
       ''http://my.cqu.edu.cn/'' []
     = (Inr None,
        [\<lparr>req_method = GET, req_url = LOGIN_URL,
          req_params = Some [(''service'', ''http://my.cqu.edu.cn/'')], req_data = None,
          req_allow_redirects = False, req_timeout = None\<rparr>,
         service_request ''http://my.cqu.edu.cn/''])"
proof -
  let ?acc = "access_service (scripted [redirect_page, plain_page])"
  have run: "?acc ''http://my.cqu.edu.cn/'' []
     = (Inr plain_page,
        [\<lparr>req_method = GET, req_url = LOGIN_URL,
          req_params = Some [(''service'', ''http://my.cqu.edu.cn/'')], req_data = None,
          req_allow_redirects = False, req_timeout = None\<rparr>,
         service_request ''http://my.cqu.edu.cn/''])"
    by (simp add: access_service_def session_get_def bind_io_def session_send_def scripted_Cons
        redirect_to_service_def service_request_def redirect_page_def)
  show ?thesis
    using deprecated_access_returns_none [of ?acc "''http://my.cqu.edu.cn/''" "[]"] run
    by (simp add: prod_eq_iff)
qed

text \<open>
  C4, as stated: a capability that is invoked a second time fails. The closures keep no
  record of their use: with a provider that answers every call with the same redirect,
  the kick capability of the raised conflict succeeds twice in a row, and so does the
  cancel capability.
\<close>

theorem conflict_capabilities_reusable_counterexample:
  "\<not> kick_others sample_authorizer
   \<and> fst (conflict_kick
        (fst (handle_login_error (always redirect_page) sample_page_parser sample_authorizer
                conflict_page [])) [])
       = Inr redirect_page
   \<and> fst (conflict_kick
        (fst (handle_login_error (always redirect_page) sample_page_parser sample_authorizer
                conflict_page []))
        (snd (conflict_kick
          (fst (handle_login_error (always redirect_page) sample_page_parser sample_authorizer
                  conflict_page [])) [])))
       = Inr redirect_page
   \<and> fst (conflict_cancel
        (fst (handle_login_error (always redirect_page) sample_page_parser sample_authorizer
                conflict_page [])) [])
       = Inr redirect_page
   \<and> fst (conflict_cancel
        (fst (handle_login_error (always redirect_page) sample_page_parser sample_authorizer
                conflict_page []))
        (snd (conflict_cancel
          (fst (handle_login_error (always redirect_page) sample_page_parser sample_authorizer
                  conflict_page [])) [])))
       = Inr redirect_page"
proof -
  have raised: "fst (handle_login_error (always redirect_page) sample_page_parser sample_authorizer
                  conflict_page [])
      = Inl (MultiSessionConflict (kick (always redirect_page) sample_authorizer sample_logined_page)
               (cancel (always redirect_page) sample_authorizer sample_logined_page))"
    by (simp add: handle_login_error_def sample_page_parser_def conflict_page_def
        sample_logined_page_def sample_authorizer_def raise_io_def)
  have k: "kick (always redirect_page) sample_authorizer sample_logined_page t
            = (Inr redirect_page,
               t @ [kick_request sample_authorizer sample_logined_page,
                    service_request ''http://my.cqu.edu.cn/''])" for t
    by (rule kick_success [where kresp = redirect_page])
      (simp_all add: always_def redirect_page_def)
  have c: "cancel (always redirect_page) sample_authorizer sample_logined_page t
            = (Inr redirect_page, t @ [cancel_request sample_authorizer sample_logined_page])" for t
    by (simp add: cancel_send session_send_def always_def)
  show ?thesis
    by (simp add: raised k c) (simp add: sample_authorizer_def)
qed

text \<open>
  C4, amended: without \<open>kick_others\<close>, a submission answered with a conflict page raises
  \<open>MultiSessionConflict\<close> with one kick and one cancel capability, right after the
  submission. In every session state, so at a first invocation and at any later one, the
  cancel capability succeeds with the provider's answer to the cancel request, and the
  kick capability succeeds with the answer to the request for the \<open>Location\<close> of the
  provider's answer to the kick request.
\<close>

theorem conflict_capabilities:
  assumes "\<not> kick_others a"
    and "prov (s @ [credential_request d]) = Some resp"
    and "status_code resp \<noteq> 302"
    and "parse (status_code resp) (resp_text resp) = Inr pg"
    and "kick_flag pg"
  shows "\<exists>k c. login prov parse a d s = (Inl (MultiSessionConflict k c), s @ [credential_request d])
    \<and> (\<forall>t r. prov (t @ [cancel_request a pg]) = Some r
          \<longrightarrow> c t = (Inr r, t @ [cancel_request a pg]))
    \<and> (\<forall>t kresp loc final.
          prov (t @ [kick_request a pg]) = Some kresp
          \<and> map_of (headers kresp) ''Location'' = Some loc
          \<and> prov (t @ [kick_request a pg, service_request loc]) = Some final
          \<longrightarrow> k t = (Inr final, t @ [kick_request a pg, service_request loc]))"
proof (intro exI conjI)
  show "login prov parse a d s
          = (Inl (MultiSessionConflict (kick prov a pg) (cancel prov a pg)), s @ [credential_request d])"
    using assms
    by (simp add: login_def credential_post_send bind_io_def session_send_def
        handle_login_error_def raise_io_def)
  show "\<forall>t r. prov (t @ [cancel_request a pg]) = Some r
          \<longrightarrow> cancel prov a pg t = (Inr r, t @ [cancel_request a pg])"
    by (simp add: cancel_send session_send_def)
  show "\<forall>t kresp loc final.
          prov (t @ [kick_request a pg]) = Some kresp
          \<and> map_of (headers kresp) ''Location'' = Some loc
          \<and> prov (t @ [kick_request a pg, service_request loc]) = Some final
          \<longrightarrow> kick prov a pg t = (Inr final, t @ [kick_request a pg, service_request loc])"
    using kick_success [of prov _ a pg] by blast
qed

theorem conflict_capabilities_witness:
  "conflict_cancel
     (fst (login (scripted [conflict_page, plain_page]) sample_page_parser sample_authorizer
             sample_formdata []))
     [credential_request sample_formdata]
   = (Inr plain_page,
      [credential_request sample_formdata, cancel_request sample_authorizer sample_logined_page])"
proof -
  let ?prov = "scripted [conflict_page, plain_page]"
  have h1: "\<not> kick_others sample_authorizer"
    by (simp add: sample_authorizer_def)
  have h2: "?prov ([] @ [credential_request sample_formdata]) = Some conflict_page"
    by (simp add: scripted_def)
  have h3: "status_code conflict_page \<noteq> 302"
    by (simp add: conflict_page_def)
  have h4: "sample_page_parser (status_code conflict_page) (resp_text conflict_page)
              = Inr sample_logined_page"
    by (simp add: sample_page_parser_def conflict_page_def)
  have h5: "kick_flag sample_logined_page"
    by (simp add: sample_logined_page_def)
  have h6: "?prov ([credential_request sample_formdata]
                   @ [cancel_request sample_authorizer sample_logined_page]) = Some plain_page"
    by (simp add: scripted_def)
  obtain k c where
    raised: "login ?prov sample_page_parser sample_authorizer sample_formdata []
               = (Inl (MultiSessionConflict k c), [] @ [credential_request sample_formdata])"
    and cancels: "\<forall>t r. ?prov (t @ [cancel_request sample_authorizer sample_logined_page]) = Some r
          \<longrightarrow> c t = (Inr r, t @ [cancel_request sample_authorizer sample_logined_page])"
    using conflict_capabilities
      [where prov = ?prov and s = "[]" and a = sample_authorizer and d = sample_formdata
         and parse = sample_page_parser and resp = conflict_page and pg = sample_logined_page,
       OF h1 h2 h3 h4 h5]
    by blast
  from cancels h6 have "c [credential_request sample_formdata]
      = (Inr plain_page,
         [credential_request sample_formdata] @ [cancel_request sample_authorizer sample_logined_page])"
    by blast
  then show ?thesis
    by (simp add: raised)
qed

section \<open>The ticket in the answer of the card site\<close>

text \<open>\<open>find_from\<close> returns the first index where the pattern begins, and \<open>-1\<close> when there is none.\<close>

lemma occurs_at_Cons_Suc [simp]: "occurs_at sub (c # cs) (Suc j) = occurs_at sub cs j"
  by (simp add: occurs_at_def)

lemma occurs_at_0: "occurs_at sub xs 0 = (take (length sub) xs = sub)"
proof
  assume "take (length sub) xs = sub"
  then have "length (take (length sub) xs) = length sub" by simp
  then have "length sub \<le> length xs" by simp
  with \<open>take (length sub) xs = sub\<close> show "occurs_at sub xs 0"
    by (simp add: occurs_at_def)
qed (simp add: occurs_at_def)

lemma find_from_first:
  "occurs_at sub xs k \<Longrightarrow> (\<forall>j<k. \<not> occurs_at sub xs j) \<Longrightarrow> find_from sub xs i = int (i + k)"
proof (induction xs arbitrary: i k)
  case Nil
  then show ?case by (simp add: occurs_at_def)
next
  case (Cons c cs)
  show ?case
  proof (cases "take (length sub) (c # cs) = sub")
    case True
    then have "occurs_at sub (c # cs) 0" by (simp add: occurs_at_0)
    with Cons.prems(2) have "k = 0" by (cases k) auto
    with True show ?thesis by simp
  next
    case False
    then have no0: "\<not> occurs_at sub (c # cs) 0" by (simp add: occurs_at_0)
    with Cons.prems(1) obtain k' where k: "k = Suc k'" by (cases k) auto
    have "occurs_at sub cs k'" using Cons.prems(1) k by simp
    moreover have "\<forall>j<k'. \<not> occurs_at sub cs j"
    proof (intro allI impI)
      fix j assume "j < k'"
      then have "Suc j < k" using k by simp
      with Cons.prems(2) have "\<not> occurs_at sub (c # cs) (Suc j)" by blast
      then show "\<not> occurs_at sub cs j" by simp
    qed
    ultimately have "find_from sub cs (Suc i) = int (Suc i + k')"
      by (rule Cons.IH)
    with False k show ?thesis by simp
  qed
qed

lemma find_from_none:
  "(\<forall>j. \<not> occurs_at sub xs j) \<Longrightarrow> find_from sub xs i = - 1"
proof (induction xs arbitrary: i)
  case Nil
  from Nil have "\<not> occurs_at sub [] 0" by blast
  then have "sub \<noteq> []" by (auto simp: occurs_at_def)
  then show ?case by simp
next
  case (Cons c cs)
  from Cons.prems have "\<not> occurs_at sub (c # cs) 0" by blast
  then have no0: "take (length sub) (c # cs) \<noteq> sub" by (simp add: occurs_at_0)
  have "\<forall>j. \<not> occurs_at sub cs j"
  proof
    fix j
    from Cons.prems have "\<not> occurs_at sub (c # cs) (Suc j)" by blast
    then show "\<not> occurs_at sub cs j" by simp
  qed
  then have "find_from sub cs (Suc i) = - 1" by (rule Cons.IH)
  with no0 show ?case by simp
qed

lemma first_occurrence_unique:
  "first_occurrence sub txt i \<Longrightarrow> first_occurrence sub txt j \<Longrightarrow> i = j"
  unfolding first_occurrence_def by (meson linorder_neqE_nat)

lemma first_occurrence_exists:
  assumes "occurs_at sub txt j"
  shows "\<exists>k. first_occurrence sub txt k"
proof -
  let ?k = "LEAST n. occurs_at sub txt n"
  have "occurs_at sub txt ?k" using assms by (rule LeastI)
  moreover have "\<forall>n < ?k. \<not> occurs_at sub txt n"
    using not_less_Least by blast
  ultimately show ?thesis unfolding first_occurrence_def by blast
qed

lemma py_find_first:
  "first_occurrence sub xs k \<Longrightarrow> py_find xs sub 0 = int k"
  using find_from_first [of sub xs k 0] by (simp add: first_occurrence_def py_find_def)

lemma py_find_none:
  "(\<forall>j. \<not> occurs_at sub txt j) \<Longrightarrow> py_find txt sub 0 = - 1"
  unfolding py_find_def by (simp add: find_from_none)

lemma find_from_char:
  "c \<notin> set ys \<Longrightarrow> find_from [c] (ys @ c # zs) i = int (i + length ys)"
  by (induction ys arbitrary: i) auto

lemma py_slice_middle:
  "py_slice (xs @ ys @ zs) (int (length xs)) (int (length xs + length ys)) = ys"
  by (simp add: py_slice_def py_bound_def Let_def)

lemma get_ticket_answered:
  assumes "prov (s @ [ticket_request]) = Some r" and "status_code r = 200"
  shows "get_ticket prov s =
     (let ticket_start = py_find (resp_text r) ''ticket='' 0 in
      if ticket_start > 0 then
        Inr (py_slice (resp_text r) (ticket_start + 7)
               (py_find (resp_text r) [CHR 0x27] (nat ticket_start)))
      else Inl TicketGetError, s @ [ticket_request])"
  using assms
  by (simp add: get_ticket_def bind_io_def session_send_def Let_def return_io_def raise_io_def)

lemma ticket_error_iff:
  assumes "prov (s @ [ticket_request]) = Some r" and "status_code r = 200"
  shows "fst (get_ticket prov s) = Inl TicketGetError
           \<longleftrightarrow> \<not> (\<exists>i>0. first_occurrence ''ticket='' (resp_text r) i)"
proof (cases "\<exists>j. occurs_at ''ticket='' (resp_text r) j")
  case False
  then have "py_find (resp_text r) ''ticket='' 0 = - 1"
    by (simp add: py_find_none)
  moreover from False have "\<not> (\<exists>i>0. first_occurrence ''ticket='' (resp_text r) i)"
    unfolding first_occurrence_def by blast
  ultimately show ?thesis
    by (simp add: get_ticket_answered [of prov s r, OF assms])
next
  case True
  then obtain k where k: "first_occurrence ''ticket='' (resp_text r) k"
    using first_occurrence_exists by blast
  then have found: "py_find (resp_text r) ''ticket='' 0 = int k"
    by (rule py_find_first)
  show ?thesis
  proof (cases "k = 0")
    case True
    with k have "\<not> (\<exists>i>0. first_occurrence ''ticket='' (resp_text r) i)"
      using first_occurrence_unique by blast
    with True found show ?thesis
      by (simp add: get_ticket_answered [of prov s r, OF assms])
  next
    case False
    with k have "\<exists>i>0. first_occurrence ''ticket='' (resp_text r) i" by blast
    with False found show ?thesis
      by (simp add: get_ticket_answered [of prov s r, OF assms])
  qed
qed

lemma ticket_between:
  assumes "prov (s @ [ticket_request]) = Some r" and "status_code r = 200"
    and body: "resp_text r = pre @ ''ticket='' @ t @ CHR 0x27 # post"
    and "pre \<noteq> []"
    and first: "first_occurrence ''ticket='' (resp_text r) (length pre)"
    and "CHR 0x27 \<notin> set t"
  shows "fst (get_ticket prov s) = Inr t"
proof -
  have found: "py_find (resp_text r) ''ticket='' 0 = int (length pre)"
    using first by (rule py_find_first)
  have "CHR 0x27 \<notin> set (''ticket='' @ t)"
    using assms(6) by simp
  then have "find_from [CHR 0x27] ((''ticket='' @ t) @ CHR 0x27 # post) (length pre)
               = int (length pre + length (''ticket='' @ t))"
    by (rule find_from_char)
  then have quote: "py_find (resp_text r) [CHR 0x27] (length pre) = int (length pre + 7 + length t)"
    by (simp add: py_find_def body)
  have "py_slice ((pre @ ''ticket='') @ t @ CHR 0x27 # post)
          (int (length (pre @ ''ticket=''))) (int (length (pre @ ''ticket='') + length t)) = t"
    by (rule py_slice_middle)
  then have "py_slice (resp_text r) (int (length pre) + 7) (int (length pre + 7 + length t)) = t"
    by (simp add: body ac_simps)
  with found quote assms(4) show ?thesis
    by (simp add: get_ticket_answered [of prov s r, OF assms(1,2)])
qed

text \<open>
  C10, as stated: the ticket is returned, as the text strictly between the first
  \<open>ticket=\<close> and the next single quote, if and only if that occurrence starts at a
  positive offset. It fails for the body \<open>xticket=abc\<close>: the marker starts at offset 1, no
  single quote follows, \<^verbatim>\<open>find\<close> gives \<open>-1\<close> as the end of the slice, and the returned
  text \<open>ab\<close> lies between the marker and no quote.
\<close>

theorem unquoted_ticket_counterexample:
  "get_ticket (always unquoted_ticket_page) [] = (Inr ''ab'', [ticket_request])
   \<and> first_occurrence ''ticket='' (resp_text unquoted_ticket_page) 1
   \<and> CHR 0x27 \<notin> set (resp_text unquoted_ticket_page)"
  by (simp add: get_ticket_def bind_io_def session_send_def always_def unquoted_ticket_page_def
      py_find_def py_slice_def py_bound_def return_io_def first_occurrence_def occurs_at_def)

text \<open>
  C10, amended: for an answer with status 200, \<open>get_ticket\<close> raises \<open>TicketGetError\<close>
  if and only if no first occurrence of \<open>ticket=\<close> starts at a positive offset; in
  particular it does so when the marker stands at offset 0. When the first occurrence
  starts at a positive offset and a single quote follows it, the text strictly between
  the marker and the next single quote is returned.
\<close>

theorem ticket_extraction:
  assumes "prov (s @ [ticket_request]) = Some r" and "status_code r = 200"
  shows "(fst (get_ticket prov s) = Inl TicketGetError
            \<longleftrightarrow> \<not> (\<exists>i>0. first_occurrence ''ticket='' (resp_text r) i))
    \<and> (occurs_at ''ticket='' (resp_text r) 0 \<longrightarrow> fst (get_ticket prov s) = Inl TicketGetError)
    \<and> (\<forall>pre t post.
          resp_text r = pre @ ''ticket='' @ t @ CHR 0x27 # post \<and> pre \<noteq> []
          \<and> first_occurrence ''ticket='' (resp_text r) (length pre) \<and> CHR 0x27 \<notin> set t
          \<longrightarrow> fst (get_ticket prov s) = Inr t)"
proof (intro conjI)
  show iff: "fst (get_ticket prov s) = Inl TicketGetError
            \<longleftrightarrow> \<not> (\<exists>i>0. first_occurrence ''ticket='' (resp_text r) i)"
    using assms by (rule ticket_error_iff)
  show "occurs_at ''ticket='' (resp_text r) 0 \<longrightarrow> fst (get_ticket prov s) = Inl TicketGetError"
  proof
    assume "occurs_at ''ticket='' (resp_text r) 0"
    then have "first_occurrence ''ticket='' (resp_text r) 0"
      by (simp add: first_occurrence_def)
    then have "\<not> (\<exists>i>0. first_occurrence ''ticket='' (resp_text r) i)"
      using first_occurrence_unique by blast
    with iff show "fst (get_ticket prov s) = Inl TicketGetError" by simp
  qed
  show "\<forall>pre t post.
          resp_text r = pre @ ''ticket='' @ t @ CHR 0x27 # post \<and> pre \<noteq> []
          \<and> first_occurrence ''ticket='' (resp_text r) (length pre) \<and> CHR 0x27 \<notin> set t
          \<longrightarrow> fst (get_ticket prov s) = Inr t"
    using ticket_between [of prov s r, OF assms] by blast
qed

theorem ticket_extraction_witness:
  "fst (get_ticket (always quoted_ticket_page) []) = Inr ''ST-1''"
proof -
  have h1: "always quoted_ticket_page ([] @ [ticket_request]) = Some quoted_ticket_page"
    by (simp add: always_def)
  have h2: "status_code quoted_ticket_page = 200"
    by (simp add: quoted_ticket_page_def)
  have shape: "resp_text quoted_ticket_page = ''url?'' @ ''ticket='' @ ''ST-1'' @ CHR 0x27 # '';''"
    by (simp add: quoted_ticket_page_def)
  have first: "first_occurrence ''ticket='' (resp_text quoted_ticket_page) (length ''url?'')"
    by (simp add: first_occurrence_def occurs_at_def quoted_ticket_page_def
        numeral_eq_Suc less_Suc_eq)
  have clean: "CHR 0x27 \<notin> set ''ST-1''"
    by simp
  show ?thesis
    using ticket_extraction [of "always quoted_ticket_page" "[]" quoted_ticket_page, OF h1 h2]
      shape first clean
    by blast
qed

end
